theory Spec2Isabelle
  imports Main
begin

section \<open>The cache of Cache.go\<close>

text \<open>
  The Go source declares the cache as a struct with one field and five functions:
  \<^verbatim>\<open>
  type PriorityExpiryCache struct {
      maxItems int
      // TODO(interviewee): implement this
  }
  func NewCache(maxItems int) *PriorityExpiryCache { return &PriorityExpiryCache{maxItems: maxItems} }
  func (c *PriorityExpiryCache) Get(key string) interface{} { return nil }
  func (c *PriorityExpiryCache) Set(key string, value interface{}, priority int, expire time.Time) {
      // ... the interviewee does not need to implement this.
      c.evictItems()
  }
  func (c *PriorityExpiryCache) SetMaxItems(maxItems int) { c.maxItems = maxItems; c.evictItems() }
  // evictItems will evict items from the cache to make room for new ones.
  func (c *PriorityExpiryCache) evictItems() { }
  \<close>
  The struct is a record. The methods have a pointer receiver, so each one takes the
  cache and returns the cache it leaves behind. No function does arithmetic on an
  integer, so Go's \<open>int\<close> (32 or 64 bits by platform) is modelled as \<open>int\<close>: every Go
  value is one, and no operation can overflow. A value of type \<open>interface{}\<close> is
  \<open>'v option\<close>, with \<open>None\<close> for \<open>nil\<close>. The source never inspects a \<open>time.Time\<close>,
  which stays a type parameter \<open>'t\<close>. No function panics or returns an error, so no
  result type carries one.
\<close>

record PriorityExpiryCache =
  maxItems :: int

definition NewCache :: "int \<Rightarrow> PriorityExpiryCache" where
  "NewCache m = \<lparr>maxItems = m\<rparr>"

text \<open>The body of \<open>evictItems\<close> is empty: the cache is left as it is.\<close>

definition evictItems :: "PriorityExpiryCache \<Rightarrow> PriorityExpiryCache" where
  "evictItems c = c"

text \<open>\<open>Get\<close> returns \<open>nil\<close> and writes no field; the pair is the result and the cache after the call.\<close>

definition Get :: "PriorityExpiryCache \<Rightarrow> string \<Rightarrow> 'v option \<times> PriorityExpiryCache" where
  "Get c key = (None, c)"

text \<open>\<open>Set\<close> uses none of its four arguments: its body is the call of \<open>evictItems\<close>.\<close>

definition Set :: "PriorityExpiryCache \<Rightarrow> string \<Rightarrow> 'v option \<Rightarrow> int \<Rightarrow> 't \<Rightarrow> PriorityExpiryCache" where
  "Set c key val priority expire = evictItems c"

definition SetMaxItems :: "PriorityExpiryCache \<Rightarrow> int \<Rightarrow> PriorityExpiryCache" where
  "SetMaxItems c m = evictItems (c\<lparr>maxItems := m\<rparr>)"

subsection \<open>Sequences of calls\<close>

text \<open>A client's mutating calls, and the cache after a list of them, first call first.\<close>

datatype ('v, 't) call =
    CallSet string "'v option" int 't
  | CallSetMaxItems int

fun step :: "PriorityExpiryCache \<Rightarrow> ('v, 't) call \<Rightarrow> PriorityExpiryCache" where
  "step c (CallSet key val priority expire) = Set c key val priority expire"
| "step c (CallSetMaxItems m) = SetMaxItems c m"

fun run :: "PriorityExpiryCache \<Rightarrow> ('v, 't) call list \<Rightarrow> PriorityExpiryCache" where
  "run c [] = c"
| "run c (x # xs) = run (step c x) xs"

subsection \<open>What a client can observe\<close>

text \<open>
  The source has no \<open>size()\<close> and no field that holds entries. An entry is live for a
  client when \<open>Get\<close> finds it; the number of live entries among a list of keys is the
  number of different keys of the list on which \<open>Get\<close> hits.
\<close>

definition hit :: "'v option \<times> PriorityExpiryCache \<Rightarrow> bool" where
  "hit r = (case fst r of None \<Rightarrow> False | Some v \<Rightarrow> True)"

definition size_on :: "(string \<Rightarrow> 'v option \<times> PriorityExpiryCache) \<Rightarrow> string list \<Rightarrow> nat" where
  "size_on lookup ks = length (filter (\<lambda>k. hit (lookup k)) (remdups ks))"

section \<open>Helper facts\<close>

lemma evictItems_id: "evictItems c = c"
  by (simp add: evictItems_def)

lemma Set_id: "Set c key val priority expire = c"
  by (simp add: Set_def evictItems_def)

lemma Get_result: "fst (Get c key) = None"
  by (simp add: Get_def)

lemma Get_state: "snd (Get c key) = c"
  by (simp add: Get_def)

section \<open>Properties of the stub\<close>

text \<open>
  C8. In every cache state, and so in every state reached from \<open>NewCache\<close> by a sequence
  of \<open>Set\<close> and \<open>SetMaxItems\<close> calls, \<open>Get\<close> returns \<open>nil\<close> for every key: no stored
  value ever comes back.
\<close>

theorem Get_always_nil:
  "fst (Get c key) = None \<and> fst (Get (run (NewCache m) cs) key) = None"
  by (simp add: Get_def)

text \<open>
  C9. \<open>Set\<close> leaves the cache, whose only field is \<open>maxItems\<close>, as it found it, whatever
  its arguments; so does \<open>Get\<close>.
\<close>

theorem Set_and_Get_frame:
  "Set c key val priority expire = c
   \<and> maxItems (Set c key val priority expire) = maxItems c
   \<and> snd (Get c key') = c"
  by (simp add: Set_def evictItems_def Get_def)

text \<open>
  C10. After \<open>SetMaxItems b\<close> the field \<open>maxItems\<close> is \<open>b\<close>, whatever it was; the last of
  two calls wins, a repeated call changes nothing, and both hold from the state
  \<open>NewCache\<close> builds, whose field is its argument.
\<close>

theorem SetMaxItems_last_write_wins:
  "maxItems (SetMaxItems c b) = b
   \<and> SetMaxItems (SetMaxItems c a) b = SetMaxItems c b
   \<and> SetMaxItems (SetMaxItems c b) b = SetMaxItems c b
   \<and> maxItems (NewCache b) = b
   \<and> SetMaxItems (NewCache a) b = NewCache b
   \<and> SetMaxItems (NewCache b) b = NewCache b"
  by (simp add: SetMaxItems_def evictItems_def NewCache_def)

section \<open>Stored entries and eviction order\<close>

text \<open>
  The struct has no field that could hold an entry, \<open>Set\<close> stores nothing and
  \<open>evictItems\<close> selects nothing. The theorems of this section evaluate the source on
  the scenarios of the round-trip and eviction-order properties: in each one the entry
  that the property keeps in the cache is not found by \<open>Get\<close>.
\<close>

text \<open>
  C1. Round-trip: \<open>Set\<close> of a key with the value 7 and an expiry time of 100, then at
  once \<open>Get\<close> of the same key (at any time before 100: \<open>Get\<close> takes no time), in a
  cache of capacity 10. The property returns 7; the source returns \<open>nil\<close>.
\<close>

theorem roundtrip_returns_nil:
  "fst (Get (Set (NewCache 10) ''k'' (Some (7::int)) 1 (100::int)) ''k'') = (None :: int option)"
  by (simp add: Get_def)


text \<open>
  C4. LRU within a tier: capacity 3; \<open>a\<close>, \<open>b\<close>, \<open>c\<close> are set in this order with the
  same priority and are not read; \<open>SetMaxItems 2\<close> forces one eviction. The property
  removes \<open>a\<close> and keeps \<open>b\<close> and \<open>c\<close>; in the source \<open>Get\<close> finds neither \<open>b\<close> nor
  \<open>c\<close>, before the eviction as after it.
\<close>

theorem lru_first_eviction_keeps_nothing:
  "fst (Get (run (NewCache 3)
          [CallSet ''a'' (Some (1::int)) 1 (100::int), CallSet ''b'' (Some 2) 1 100,
           CallSet ''c'' (Some 3) 1 100, CallSetMaxItems 2]) ''b'') = (None :: int option)
   \<and> fst (Get (run (NewCache 3)
          [CallSet ''a'' (Some (1::int)) 1 (100::int), CallSet ''b'' (Some 2) 1 100,
           CallSet ''c'' (Some 3) 1 100, CallSetMaxItems 2]) ''c'') = (None :: int option)
   \<and> fst (Get (run (NewCache 3)
          [CallSet ''a'' (Some (1::int)) 1 (100::int), CallSet ''b'' (Some 2) 1 100,
           CallSet ''c'' (Some 3) 1 100]) ''b'') = (None :: int option)"
  by (simp add: Get_def)


text \<open>
  C6. Update in place: capacity 10; \<open>x\<close> is set with priority 1 and then with priority
  5. The property leaves one live entry for \<open>x\<close>; in the source \<open>Get\<close> does not find
  \<open>x\<close>, and the number of live entries among the key \<open>x\<close> is 0.
\<close>

theorem update_in_place_keeps_nothing:
  "fst (Get (run (NewCache 10)
          [CallSet ''x'' (Some (1::int)) 1 (100::int), CallSet ''x'' (Some 2) 5 100]) ''x'')
     = (None :: int option)
   \<and> size_on (Get (run (NewCache 10)
          [CallSet ''x'' (Some (1::int)) 1 (100::int), CallSet ''x'' (Some 2) 5 100])
          :: string \<Rightarrow> int option \<times> PriorityExpiryCache) [''x''] = 0"
  by (simp add: Get_def size_on_def hit_def)

end
